theory Spec2Isabelle
  imports
    Complex_Main
    "HOL-Library.Multiset"
    "HOL-Library.Product_Lexorder"
    "HOL-Library.List_Lexorder"
    "HOL-Library.Char_ord"
begin

section \<open>JavaScript values used by the card\<close>

text \<open>
  The card is configured with a plain object that comes from the dashboard's YAML. The
  properties that \<^verbatim>\<open>src/index.js\<close> reads hold primitive values, except \<^verbatim>\<open>entities\<close>,
  which holds an array. A number is a double: not-a-number, one of the two infinities, or a
  finite value, kept here as the rational it denotes (the code only compares it with zero
  and with another number for equality).
\<close>

datatype jsnumber = NaN | NegInfinity | Finite rat | PosInfinity

datatype jsvalue =
    JSUndefined
  | JSNull
  | JSBoolean bool
  | JSNumber jsnumber
  | JSString string

text \<open>Truthiness of a primitive, as \<^verbatim>\<open>!v\<close>, \<^verbatim>\<open>a || b\<close>, \<^verbatim>\<open>a && b\<close> and \<^verbatim>\<open>c ? x : y\<close> read it.\<close>

fun truthy :: "jsvalue \<Rightarrow> bool" where
  "truthy JSUndefined = False"
| "truthy JSNull = False"
| "truthy (JSBoolean b) = b"
| "truthy (JSNumber n) = (n \<noteq> NaN \<and> n \<noteq> Finite 0)"
| "truthy (JSString s) = (s \<noteq> [])"

text \<open>
  The abstract operation ToNumber. What it does on a string is the engine's numeric-literal
  parser, which is taken as the parameter \<open>s2n\<close>.
\<close>

fun ToNumber :: "(string \<Rightarrow> jsnumber) \<Rightarrow> jsvalue \<Rightarrow> jsnumber" where
  "ToNumber s2n JSUndefined = NaN"
| "ToNumber s2n JSNull = Finite 0"
| "ToNumber s2n (JSBoolean b) = Finite (if b then 1 else 0)"
| "ToNumber s2n (JSNumber n) = n"
| "ToNumber s2n (JSString s) = s2n s"

text \<open>The global \<^verbatim>\<open>isNaN(v)\<close>.\<close>

definition isNaN :: "(string \<Rightarrow> jsnumber) \<Rightarrow> jsvalue \<Rightarrow> bool" where
  "isNaN s2n v = (ToNumber s2n v = NaN)"

text \<open>\<^verbatim>\<open>v < 0\<close>: the left operand is converted to a number; a comparison with NaN is false.\<close>

definition lt_zero :: "(string \<Rightarrow> jsnumber) \<Rightarrow> jsvalue \<Rightarrow> bool" where
  "lt_zero s2n v =
     (case ToNumber s2n v of
        NaN \<Rightarrow> False
      | NegInfinity \<Rightarrow> True
      | Finite r \<Rightarrow> r < 0
      | PosInfinity \<Rightarrow> False)"

text \<open>\<^verbatim>\<open>a !== b\<close> on primitives: equal types and equal values, and NaN differs from itself.\<close>

fun strict_equals :: "jsvalue \<Rightarrow> jsvalue \<Rightarrow> bool" where
  "strict_equals JSUndefined JSUndefined = True"
| "strict_equals JSNull JSNull = True"
| "strict_equals (JSBoolean a) (JSBoolean b) = (a = b)"
| "strict_equals (JSNumber a) (JSNumber b) = (a = b \<and> a \<noteq> NaN)"
| "strict_equals (JSString a) (JSString b) = (a = b)"
| "strict_equals _ _ = False"

definition strict_not_equals :: "jsvalue \<Rightarrow> jsvalue \<Rightarrow> bool" where
  "strict_not_equals a b = (\<not> strict_equals a b)"

subsection \<open>The text of JSON.stringify\<close>

text \<open>
  \<^verbatim>\<open>setConfig\<close> compares configurations through \<^verbatim>\<open>JSON.stringify\<close>. The text it produces
  is represented by the JSON value that the text denotes: the text has no white space and
  one rendering per number and per string, so two texts are equal exactly when the values
  are. A property whose value is \<^verbatim>\<open>undefined\<close> is left out of an object; NaN and the
  infinities are written \<^verbatim>\<open>null\<close>.
\<close>

datatype json =
    JsonNull
  | JsonBool bool
  | JsonNumber rat
  | JsonString string
  | JsonArray "json list"
  | JsonObject "(string \<times> json) list"

fun stringify_value :: "jsvalue \<Rightarrow> json option" where
  "stringify_value JSUndefined = None"
| "stringify_value JSNull = Some JsonNull"
| "stringify_value (JSBoolean b) = Some (JsonBool b)"
| "stringify_value (JSNumber (Finite r)) = Some (JsonNumber r)"
| "stringify_value (JSNumber _) = Some JsonNull"
| "stringify_value (JSString s) = Some (JsonString s)"

text \<open>The properties of an object, in order; those without a rendering are skipped.\<close>

fun stringify_props :: "(string \<times> json option) list \<Rightarrow> (string \<times> json) list" where
  "stringify_props [] = []"
| "stringify_props ((k, None) # ps) = stringify_props ps"
| "stringify_props ((k, Some j) # ps) = (k, j) # stringify_props ps"

text \<open>An element of an array without a rendering is written \<^verbatim>\<open>null\<close>.\<close>

definition stringify_element :: "json option \<Rightarrow> json" where
  "stringify_element j = (case j of None \<Rightarrow> JsonNull | Some v \<Rightarrow> v)"

subsection \<open>The order of the keys of an object\<close>

text \<open>
  An object is kept as the list of its properties in the order in which they were created.
  Its own keys are enumerated, by \<^verbatim>\<open>JSON.stringify\<close> as by the spread, with the array indices
  first, in ascending order, and the other keys after them in the order of creation. An
  array index is the decimal text, without a leading zero, of a number below 4294967295.
\<close>

definition is_digit :: "char \<Rightarrow> bool" where
  "is_digit c = (48 \<le> (of_char c :: int) \<and> (of_char c :: int) \<le> 57)"

definition decimal_value :: "string \<Rightarrow> int" where
  "decimal_value s = foldl (\<lambda>n c. 10 * n + (of_char c - 48)) 0 s"

definition array_index :: "string \<Rightarrow> int option" where
  "array_index s =
     (if s \<noteq> [] \<and> list_all is_digit s \<and> (s = ''0'' \<or> hd s \<noteq> CHR ''0'') \<and>
         decimal_value s < 4294967295
      then Some (decimal_value s) else None)"

definition own_keys :: "('a \<Rightarrow> string) \<Rightarrow> 'a list \<Rightarrow> 'a list" where
  "own_keys key ps =
     sort_key (\<lambda>p. case array_index (key p) of None \<Rightarrow> 0 | Some n \<Rightarrow> n)
       (filter (\<lambda>p. array_index (key p) \<noteq> None) ps)
     @ filter (\<lambda>p. array_index (key p) = None) ps"

section \<open>The configuration object\<close>

text \<open>
  An entry of \<^verbatim>\<open>entities\<close> is an entity id or an object whose \<^verbatim>\<open>entity\<close> property is the
  id, next to display options. The object is kept as the list of its properties, each key
  once.
\<close>

datatype entity = EntityId string | EntityObject "(string \<times> jsvalue) list"

text \<open>Reading a property: \<^verbatim>\<open>undefined\<close> when the object has no such key.\<close>

definition get_prop :: "(string \<times> jsvalue) list \<Rightarrow> string \<Rightarrow> jsvalue" where
  "get_prop ps k = (case map_of ps k of None \<Rightarrow> JSUndefined | Some v \<Rightarrow> v)"

text \<open>
  The value of \<^verbatim>\<open>entity.entity || entity\<close>: the first operand when it is truthy, else the
  entry itself. An entity id is a string, which has no \<^verbatim>\<open>entity\<close> property.
\<close>

datatype entity_name = NameValue jsvalue | NameObject "(string \<times> jsvalue) list"

fun entity_or_self :: "entity \<Rightarrow> entity_name" where
  "entity_or_self (EntityId s) = NameValue (JSString s)"
| "entity_or_self (EntityObject ps) =
     (if truthy (get_prop ps ''entity'') then NameValue (get_prop ps ''entity'')
      else NameObject ps)"

definition stringify_object :: "(string \<times> jsvalue) list \<Rightarrow> json" where
  "stringify_object ps =
     JsonObject (stringify_props (map (\<lambda>(k, v). (k, stringify_value v)) (own_keys fst ps)))"

fun stringify_name :: "entity_name \<Rightarrow> json" where
  "stringify_name (NameValue v) = stringify_element (stringify_value v)"
| "stringify_name (NameObject ps) = stringify_object ps"

definition stringify_names :: "entity_name list \<Rightarrow> json" where
  "stringify_names ns = JsonArray (map stringify_name ns)"

fun stringify_entity :: "entity \<Rightarrow> json" where
  "stringify_entity (EntityId s) = JsonString s"
| "stringify_entity (EntityObject ps) = stringify_object ps"

text \<open>The value of the \<^verbatim>\<open>entities\<close> property when the key is there: null or an array.\<close>

datatype entities_value = EntitiesNull | EntitiesArray "entity list"

text \<open>
  A property of a configuration object: one of the properties that \<^verbatim>\<open>src/index.js\<close> reads,
  with its value, or any other property (title, formats, colours) with its key and value.
  The key of an \<open>Other\<close> property is none of the eight keys that are named here.
\<close>

datatype property =
    Entities entities_value
  | EventsLimit jsvalue
  | NumberOfDays jsvalue
  | MaxHeight jsvalue
  | HighlightToday jsvalue
  | UseSourceUrl jsvalue
  | DisableLinks jsvalue
  | ProgressBar jsvalue
  | Other string jsvalue

fun key_of :: "property \<Rightarrow> string" where
  "key_of (Entities v) = ''entities''"
| "key_of (EventsLimit v) = ''eventsLimit''"
| "key_of (NumberOfDays v) = ''numberOfDays''"
| "key_of (MaxHeight v) = ''maxHeight''"
| "key_of (HighlightToday v) = ''highlightToday''"
| "key_of (UseSourceUrl v) = ''useSourceUrl''"
| "key_of (DisableLinks v) = ''disableLinks''"
| "key_of (ProgressBar v) = ''progressBar''"
| "key_of (Other k v) = k"

text \<open>
  A configuration object is the list of its properties in the order in which they were
  created, each key once: the user's object, the defaults and their merge are all of this
  shape. The empty list is the empty object \<^verbatim>\<open>{}\<close>.
\<close>

type_synonym config = "property list"

definition empty_config :: config where
  "empty_config = []"

definition property_of :: "config \<Rightarrow> string \<Rightarrow> property option" where
  "property_of c k = find (\<lambda>p. key_of p = k) c"

text \<open>The value of a property of primitive type.\<close>

fun value_of :: "property \<Rightarrow> jsvalue option" where
  "value_of (Entities v) = None"
| "value_of (EventsLimit v) = Some v"
| "value_of (NumberOfDays v) = Some v"
| "value_of (MaxHeight v) = Some v"
| "value_of (HighlightToday v) = Some v"
| "value_of (UseSourceUrl v) = Some v"
| "value_of (DisableLinks v) = Some v"
| "value_of (ProgressBar v) = Some v"
| "value_of (Other k v) = Some v"

definition primitive :: "config \<Rightarrow> string \<Rightarrow> jsvalue option" where
  "primitive c k = (case property_of c k of None \<Rightarrow> None | Some p \<Rightarrow> value_of p)"

text \<open>The properties by name; \<open>None\<close> when the object has no such key.\<close>

definition entities :: "config \<Rightarrow> entities_value option" where
  "entities c = (case property_of c ''entities'' of Some (Entities v) \<Rightarrow> Some v | _ \<Rightarrow> None)"

definition eventsLimit :: "config \<Rightarrow> jsvalue option" where
  "eventsLimit c = primitive c ''eventsLimit''"

definition numberOfDays :: "config \<Rightarrow> jsvalue option" where
  "numberOfDays c = primitive c ''numberOfDays''"

definition maxHeight :: "config \<Rightarrow> jsvalue option" where
  "maxHeight c = primitive c ''maxHeight''"

definition highlightToday :: "config \<Rightarrow> jsvalue option" where
  "highlightToday c = primitive c ''highlightToday''"

definition useSourceUrl :: "config \<Rightarrow> jsvalue option" where
  "useSourceUrl c = primitive c ''useSourceUrl''"

definition disableLinks :: "config \<Rightarrow> jsvalue option" where
  "disableLinks c = primitive c ''disableLinks''"

definition progressBar :: "config \<Rightarrow> jsvalue option" where
  "progressBar c = primitive c ''progressBar''"

text \<open>Reading a property of primitive type: \<^verbatim>\<open>undefined\<close> when the key is missing.\<close>

definition read :: "jsvalue option \<Rightarrow> jsvalue" where
  "read p = (case p of None \<Rightarrow> JSUndefined | Some v \<Rightarrow> v)"

text \<open>
  The spread \<^verbatim>\<open>{ ...a, ...b }\<close>: a key of \<open>b\<close> overrides the same key of \<open>a\<close>; the keys of
  \<open>a\<close> keep their places and the new keys of \<open>b\<close> follow in \<open>b\<close>'s order.
\<close>

definition spread :: "config \<Rightarrow> config \<Rightarrow> config" where
  "spread a b =
     map (\<lambda>p. case property_of b (key_of p) of None \<Rightarrow> p | Some q \<Rightarrow> q) a
     @ filter (\<lambda>q. key_of q \<notin> set (map key_of a)) b"

text \<open>\<^verbatim>\<open>!config.entities\<close> and \<^verbatim>\<open>config.entities.length\<close>.\<close>

definition entities_truthy :: "config \<Rightarrow> bool" where
  "entities_truthy c =
     (case entities c of None \<Rightarrow> False | Some EntitiesNull \<Rightarrow> False | Some (EntitiesArray es) \<Rightarrow> True)"

definition entities_length :: "config \<Rightarrow> nat" where
  "entities_length c =
     (case entities c of Some (EntitiesArray es) \<Rightarrow> length es | _ \<Rightarrow> 0)"

text \<open>\<^verbatim>\<open>config.entities || []\<close>.\<close>

definition entities_or_empty :: "config \<Rightarrow> entity list" where
  "entities_or_empty c =
     (case entities c of Some (EntitiesArray es) \<Rightarrow> es | _ \<Rightarrow> [])"

definition stringify_entities :: "entities_value \<Rightarrow> json" where
  "stringify_entities v =
     (case v of EntitiesNull \<Rightarrow> JsonNull | EntitiesArray es \<Rightarrow> JsonArray (map stringify_entity es))"

fun stringify_property :: "property \<Rightarrow> json option" where
  "stringify_property (Entities v) = Some (stringify_entities v)"
| "stringify_property (EventsLimit v) = stringify_value v"
| "stringify_property (NumberOfDays v) = stringify_value v"
| "stringify_property (MaxHeight v) = stringify_value v"
| "stringify_property (HighlightToday v) = stringify_value v"
| "stringify_property (UseSourceUrl v) = stringify_value v"
| "stringify_property (DisableLinks v) = stringify_value v"
| "stringify_property (ProgressBar v) = stringify_value v"
| "stringify_property (Other k v) = stringify_value v"

text \<open>
  \<^verbatim>\<open>JSON.stringify(config)\<close>: the properties in the order of the object's own keys, each with
  its key; a property whose value is \<^verbatim>\<open>undefined\<close> is left out.
\<close>

definition stringify_config :: "config \<Rightarrow> json" where
  "stringify_config c =
     JsonObject (stringify_props (map (\<lambda>p. (key_of p, stringify_property p)) (own_keys key_of c)))"

section \<open>The card\<close>

text \<open>
  A calendar event as the card receives it from \<^verbatim>\<open>getAllEvents\<close>. \<^verbatim>\<open>src/index.js\<close> reads the
  identity key \<^verbatim>\<open>id\<close>, the title and the two links; the start and end instants (milliseconds
  on the local clock), the mark of an all-day event and the position of the event's source
  in the configured list are what the grouping of section 4.3 of the specification works
  on.
\<close>

record event =
  event_id :: string
  title :: string
  htmlLink :: jsvalue
  sourceUrl :: jsvalue
  start_time :: int
  end_time :: int
  all_day :: bool
  origin :: nat

text \<open>An entry of \<^verbatim>\<open>failedEvents\<close>: the source's name and the text of its error.\<close>

record failedEntity =
  name :: string
  error :: string

text \<open>An element of \<^verbatim>\<open>groupedEventsByDay\<close>: a day (counted from the epoch) and its events.\<close>

record eventDay =
  day :: int
  events :: "event list"

text \<open>
  What \<^verbatim>\<open>updateCard\<close> computes for one table row of an event. The markup itself and the
  cells made by \<^verbatim>\<open>html.tools\<close> belong to the rendering layer and are left out.
\<close>

record event_row =
  row_event :: event
  isLastEventInGroup :: bool
  lastKls :: string
  todayKls :: string
  linkUrl :: jsvalue
  disableLink :: bool

text \<open>The table assigned to \<^verbatim>\<open>this.events\<close>: the failed calendars, then the event rows.\<close>

record table =
  failedCalendars :: "failedEntity list"
  calendar :: "event_row list"

text \<open>
  The fields of the element that the two methods use. \<^verbatim>\<open>this.config\<close>,
  \<^verbatim>\<open>this.lastEventsUpdate\<close> and \<^verbatim>\<open>this.oldEvents\<close> are undefined (\<open>None\<close>) until they are
  first assigned; \<^verbatim>\<open>this.cardNeedsUpdating\<close> is only ever tested for truthiness and assigned
  a boolean, so the undefined it starts with is \<open>False\<close>; \<^verbatim>\<open>this.events\<close> starts as false
  (\<open>None\<close>). Instants are milliseconds.
\<close>

record card =
  config :: "config option"
  cardNeedsUpdating :: bool
  lastEventsUpdate :: "int option"
  oldEvents :: "event list option"
  card_events :: "table option"

definition new_card :: card where
  "new_card =
     \<lparr>config = None, cardNeedsUpdating = False, lastEventsUpdate = None, oldEvents = None,
      card_events = None\<rparr>"

text \<open>A method either returns or throws; the element keeps what was assigned before the throw.\<close>

datatype js_error = Error string | TypeError

datatype outcome = Returned | Threw js_error

subsection \<open>setConfig\<close>

text \<open>\<^verbatim>\<open>(c.entities || []).map(entity => entity.entity || entity)\<close>.\<close>

definition entity_names :: "config \<Rightarrow> entity_name list" where
  "entity_names c = map entity_or_self (entities_or_empty c)"

text \<open>\<^verbatim>\<open>this.config || {}\<close>.\<close>

definition config_or_empty :: "card \<Rightarrow> config" where
  "config_or_empty this = (case config this of None \<Rightarrow> empty_config | Some c \<Rightarrow> c)"

text \<open>
  \<^verbatim>\<open>setConfig(config)\<close>, with the defaults of \<^verbatim>\<open>./defaults\<close> as the parameter
  \<open>defaultConfig\<close>. The two checks come first and throw; the flag and the stored
  configuration are assigned after them.
\<close>

definition setConfig ::
  "(string \<Rightarrow> jsnumber) \<Rightarrow> config \<Rightarrow> card \<Rightarrow> config \<Rightarrow> outcome \<times> card" where
  "setConfig s2n defaultConfig this config0 =
     (let config = spread defaultConfig config0 in
      if \<not> entities_truthy config \<or> entities_length config = 0 then
        (Threw (Error ''You need to define at least one calendar entity via entities''), this)
      else if entities_truthy config \<and>
              (isNaN s2n (read (eventsLimit config)) \<or> lt_zero s2n (read (eventsLimit config))) then
        (Threw (Error ''The eventsLimit option needs to be a positive number''), this)
      else
        let newNames = entity_names config;
            oldNames = entity_names (config_or_empty this);
            this1 =
              (if (case card.config this of
                     None \<Rightarrow> True
                   | Some old \<Rightarrow>
                       stringify_names newNames \<noteq> stringify_names oldNames \<or>
                       strict_not_equals (read (numberOfDays config)) (read (numberOfDays old)))
               then this\<lparr>cardNeedsUpdating := True\<rparr> else this);
            this2 =
              (if stringify_config config \<noteq> stringify_config (config_or_empty this)
               then this1\<lparr>cardNeedsUpdating := True\<rparr> else this1)
        in (Returned, this2\<lparr>card.config := Some config\<rparr>))"

subsection \<open>updateCard\<close>

text \<open>
  \<^verbatim>\<open>moment().diff(that, 'seconds')\<close>: the difference in milliseconds divided by 1000 and
  truncated towards zero. With \<^verbatim>\<open>that\<close> undefined the library compares with the current
  instant, which gives 0.
\<close>

definition absFloor :: "int \<Rightarrow> int \<Rightarrow> int" where
  "absFloor x d = (if x < 0 then - ((- x) div d) else x div d)"

definition moment_diff_seconds :: "int \<Rightarrow> int option \<Rightarrow> int" where
  "moment_diff_seconds now that = (case that of None \<Rightarrow> 0 | Some t \<Rightarrow> absFloor (now - t) 1000)"

text \<open>The test that opens \<^verbatim>\<open>updateCard\<close> and returns without a fetch.\<close>

definition skips_update :: "card \<Rightarrow> int \<Rightarrow> bool" where
  "skips_update this now =
     (\<not> cardNeedsUpdating this \<and> moment_diff_seconds now (lastEventsUpdate this) < 600)"

text \<open>The day of an instant, for \<^verbatim>\<open>isSame(today, "day")\<close>.\<close>

definition day_of :: "int \<Rightarrow> int" where
  "day_of t = t div 86400000"

text \<open>The link of an event row and whether clicking it is disabled.\<close>

definition row_linkUrl :: "config \<Rightarrow> event \<Rightarrow> jsvalue" where
  "row_linkUrl c e =
     (if truthy (read (useSourceUrl c)) \<and> truthy (sourceUrl e) then sourceUrl e else htmlLink e)"

definition row_disableLink :: "config \<Rightarrow> event \<Rightarrow> bool" where
  "row_disableLink c e = (truthy (read (disableLinks c)) \<or> \<not> truthy (row_linkUrl c e))"

definition make_row :: "config \<Rightarrow> int \<Rightarrow> eventDay \<Rightarrow> event \<Rightarrow> nat \<Rightarrow> event_row" where
  "make_row c today eventDay e index =
     (let isLast = (length (events eventDay) = index + 1) in
      \<lparr>row_event = e,
       isLastEventInGroup = isLast,
       lastKls = (if isLast then ''day-wrapper-last'' else ''''),
       todayKls =
         (if truthy (read (highlightToday c)) \<and> day eventDay = day_of today
          then ''highlight-events'' else ''''),
       linkUrl = row_linkUrl c e,
       disableLink = row_disableLink c e\<rparr>)"

definition day_rows :: "config \<Rightarrow> int \<Rightarrow> eventDay \<Rightarrow> event_row list" where
  "day_rows c today eventDay =
     map (\<lambda>(e, index). make_row c today eventDay e index)
       (zip (events eventDay) [0 ..< length (events eventDay)])"

text \<open>
  The functions \<^verbatim>\<open>getAllEvents\<close>, \<^verbatim>\<open>groupEventsByDay\<close> and \<^verbatim>\<open>sendNotificationForNewEvents\<close>
  of \<^verbatim>\<open>./event.tools\<close> that \<^verbatim>\<open>updateCard\<close> calls, as parameters. They are given
  \<^verbatim>\<open>this.config\<close> as it is.
\<close>

record event_tools =
  tool_getAllEvents :: "config option \<Rightarrow> event list \<times> failedEntity list"
  tool_groupEventsByDay :: "event list \<Rightarrow> config option \<Rightarrow> eventDay list"
  tool_sendNotificationForNewEvents ::
    "config option \<Rightarrow> event list \<Rightarrow> event list option \<Rightarrow> event list option"

text \<open>
  \<^verbatim>\<open>updateCard()\<close> at the instant \<open>now\<close>, on an element whose \<^verbatim>\<open>hass\<close> is set (the call
  that sets the locale of the dates is left to the rendering layer). Reading a flag of an
  undefined \<^verbatim>\<open>this.config\<close> while a row is built throws a TypeError.
\<close>

definition updateCard :: "event_tools \<Rightarrow> int \<Rightarrow> card \<Rightarrow> outcome \<times> card" where
  "updateCard tools now this =
     (if skips_update this now then (Returned, this)
      else
        let this1 = this\<lparr>lastEventsUpdate := Some now, cardNeedsUpdating := False\<rparr>;
            (evs, failedEvents) = tool_getAllEvents tools (config this1);
            groupedEventsByDay = tool_groupEventsByDay tools evs (config this1);
            this2 =
              this1\<lparr>oldEvents :=
                tool_sendNotificationForNewEvents tools (config this1) evs (oldEvents this1)\<rparr>
        in case config this2 of
             None \<Rightarrow>
               (if \<exists>d \<in> set groupedEventsByDay. events d \<noteq> [] then (Threw TypeError, this2)
                else (Returned,
                      this2\<lparr>card_events := Some \<lparr>failedCalendars = failedEvents, calendar = []\<rparr>\<rparr>))
           | Some c \<Rightarrow>
               (Returned,
                this2\<lparr>card_events :=
                  Some \<lparr>failedCalendars = failedEvents,
                        calendar = concat (map (day_rows c now) groupedEventsByDay)\<rparr>\<rparr>))"

section \<open>The functions of event.tools\<close>

text \<open>
  The module \<^verbatim>\<open>./event.tools\<close> is not among the sources. Its three functions that
  \<^verbatim>\<open>updateCard\<close> calls are defined here as the specification describes them (sections 4.1,
  4.3 and 4.5), and the properties about them are properties of these definitions.
\<close>

subsection \<open>Source Fetcher\<close>

text \<open>
  Modelled from the spec: the calendar source collaborator \<^verbatim>\<open>fetch(sourceSpec, window)\<close> of
  section 6, which within one fetch cycle answers a source either with an error or with the
  source's events.
\<close>

type_synonym fetcher = "entity \<Rightarrow> int \<times> int \<Rightarrow> string + event list"

text \<open>
  Modelled from the spec: an entry \<^verbatim>\<open>{source, error}\<close> of the failed list that
  \<^verbatim>\<open>getAllEvents\<close> returns (section 4.1).
\<close>

record failure =
  failed_source :: entity
  failed_error :: string

text \<open>
  Modelled from the spec: the time window \<^verbatim>\<open>[now, now + N days)\<close> over which
  \<^verbatim>\<open>getAllEvents\<close> queries every source (section 4.1).
\<close>

definition fetch_window :: "int \<Rightarrow> nat \<Rightarrow> int \<times> int" where
  "fetch_window now n = (now, now + int n * 86400000)"

text \<open>
  Modelled from the spec: the events that \<^verbatim>\<open>getAllEvents\<close> takes from one source
  (section 4.1): none when the fetch failed, else the source's events, each marked with the
  position of the source in the configured list (the origin of section 3).
\<close>

definition source_events :: "fetcher \<Rightarrow> int \<times> int \<Rightarrow> nat \<times> entity \<Rightarrow> event list" where
  "source_events fetch w =
     (\<lambda>(i, s). case fetch s w of Inl err \<Rightarrow> [] | Inr evs \<Rightarrow> map (\<lambda>e. e\<lparr>origin := i\<rparr>) evs)"

text \<open>
  Modelled from the spec: the failure that \<^verbatim>\<open>getAllEvents\<close> records for one source
  (section 4.1): the error is captured as data.
\<close>

definition source_failures :: "fetcher \<Rightarrow> int \<times> int \<Rightarrow> nat \<times> entity \<Rightarrow> failure list" where
  "source_failures fetch w =
     (\<lambda>(i, s). case fetch s w of
                 Inl err \<Rightarrow> [\<lparr>failed_source = s, failed_error = err\<rparr>]
               | Inr evs \<Rightarrow> [])"

text \<open>
  Modelled from the spec: \<^verbatim>\<open>getAllEvents\<close> of \<^verbatim>\<open>./event.tools\<close> (sections 4.1 and 5). One
  fetch is issued per configured source and the fetches run concurrently; \<open>arrival\<close> lists
  the configured sources, each with its position in the configuration, in the order in
  which their fetches complete. The result is the pair \<^verbatim>\<open>{ events, failedEvents }\<close>: the
  events of the successful sources, concatenated, and the captured failures.
\<close>

definition getAllEvents ::
  "fetcher \<Rightarrow> int \<times> int \<Rightarrow> (nat \<times> entity) list \<Rightarrow> event list \<times> failure list" where
  "getAllEvents fetch w arrival =
     (concat (map (source_events fetch w) arrival),
      concat (map (source_failures fetch w) arrival))"

text \<open>
  Modelled from the spec: the configured sources with their positions, and what it means
  for \<open>arrival\<close> to be an order in which the fetches of these sources complete (each source
  once, section 5).
\<close>

definition configured :: "entity list \<Rightarrow> (nat \<times> entity) list" where
  "configured sources = enumerate 0 sources"

definition completion_order :: "entity list \<Rightarrow> (nat \<times> entity) list \<Rightarrow> bool" where
  "completion_order sources arrival = (mset arrival = mset (configured sources))"

subsection \<open>Novelty Notifier\<close>

text \<open>
  Modelled from the spec: \<^verbatim>\<open>detectNew(previousEvents, currentEvents)\<close> of section 4.5. An
  event is new when its identity key is absent from the previous snapshot; with no previous
  snapshot (\<^verbatim>\<open>this.oldEvents\<close> is undefined until the first refresh) nothing is new.
\<close>

definition detectNew :: "event list option \<Rightarrow> event list \<Rightarrow> event list" where
  "detectNew previousEvents currentEvents =
     (case previousEvents of
        None \<Rightarrow> []
      | Some prev \<Rightarrow> filter (\<lambda>e. event_id e \<notin> set (map event_id prev)) currentEvents)"

text \<open>
  Modelled from the spec: \<^verbatim>\<open>sendNotificationForNewEvents\<close> of \<^verbatim>\<open>./event.tools\<close>
  (section 4.5): the events for which a notification is requested, and the snapshot that
  \<^verbatim>\<open>updateCard\<close> stores in \<^verbatim>\<open>this.oldEvents\<close>, which is the current list.
\<close>

definition sendNotificationForNewEvents ::
  "event list \<Rightarrow> event list option \<Rightarrow> event list \<times> event list option" where
  "sendNotificationForNewEvents currentEvents previousEvents =
     (detectNew previousEvents currentEvents, Some currentEvents)"

subsection \<open>Day Grouper\<close>

text \<open>
  Modelled from the spec: the part of the configuration that the grouping of section 4.3
  reads, with the types of section 6: the number of days, the limit on events, an optional
  custom range of days (first day, day after the last), whether past events are shown, and
  whether an event also appears on each later day that it spans.
\<close>

record grouping =
  gNumberOfDays :: nat
  gEventsLimit :: nat
  gCustomRange :: "(int \<times> int) option"
  gShowPastEvents :: bool
  gSpannedDays :: bool

text \<open>
  Modelled from the spec: the days \<^verbatim>\<open>[today, today + numberOfDays)\<close>, or the custom
  configured range, of step 1 of section 4.3.
\<close>

definition day_range :: "grouping \<Rightarrow> int \<Rightarrow> int \<times> int" where
  "day_range g now =
     (case gCustomRange g of
        None \<Rightarrow> (day_of now, day_of now + int (gNumberOfDays g))
      | Some r \<Rightarrow> r)"

text \<open>
  Modelled from the spec: the filter of step 1 of section 4.3. An event is kept when its
  start day is in the range and, unless past events are shown, it has not ended yet.
\<close>

definition kept :: "grouping \<Rightarrow> int \<Rightarrow> event \<Rightarrow> bool" where
  "kept g now e =
     (fst (day_range g now) \<le> day_of (start_time e) \<and>
      day_of (start_time e) < snd (day_range g now) \<and>
      (gShowPastEvents g \<or> now \<le> end_time e))"

text \<open>
  Modelled from the spec: the multi-day and all-day events of step 2 of section 4.3: an
  event that is marked as lasting all day, or that ends on a later day than it starts.
\<close>

definition multi_day :: "event \<Rightarrow> bool" where
  "multi_day e = (all_day e \<or> day_of (start_time e) < day_of (end_time e))"

text \<open>
  Modelled from the spec: the order of step 2 of section 4.3. The events are sorted by
  start time, but the multi-day and all-day events sort to the top of their start day; ties
  are broken by the position of the source, then by title (section 3). The key is compared
  component by component: the start day, whether the event is an ordinary one, the start
  instant, the position of the source, the title.
\<close>

definition event_order :: "event \<Rightarrow> int \<times> bool \<times> int \<times> nat \<times> string" where
  "event_order e =
     (day_of (start_time e), \<not> multi_day e, start_time e, origin e, title e)"


text \<open>
  Modelled from the spec: step 3 of section 4.3. An event is in the bucket of its start
  day and, when the configuration asks for it, in the bucket of every later day up to the
  day it ends.
\<close>

definition appears_on :: "grouping \<Rightarrow> event \<Rightarrow> int \<Rightarrow> bool" where
  "appears_on g e d =
     (day_of (start_time e) = d \<or>
      (gSpannedDays g \<and> day_of (start_time e) \<le> d \<and> d \<le> day_of (end_time e)))"

definition day_bucket :: "grouping \<Rightarrow> event list \<Rightarrow> int \<Rightarrow> eventDay" where
  "day_bucket g evs d = \<lparr>day = d, events = filter (\<lambda>e. appears_on g e d) evs\<rparr>"

text \<open>
  Modelled from the spec: the buckets of step 3 of section 4.3, one for each day of the
  range that has an event, in the order of the days.
\<close>

definition day_buckets :: "grouping \<Rightarrow> int \<Rightarrow> event list \<Rightarrow> eventDay list" where
  "day_buckets g now evs =
     filter (\<lambda>b. events b \<noteq> [])
       (map (day_bucket g evs) [fst (day_range g now) .. snd (day_range g now) - 1])"

text \<open>
  Modelled from the spec: the truncation of step 4 of section 4.3. The first \<open>n\<close> events,
  counted across the buckets in their order, are kept.
\<close>

fun truncate_days :: "nat \<Rightarrow> eventDay list \<Rightarrow> eventDay list" where
  "truncate_days n [] = []"
| "truncate_days n (b # bs) =
     b\<lparr>events := take n (events b)\<rparr> # truncate_days (n - length (events b)) bs"

text \<open>
  Modelled from the spec: \<^verbatim>\<open>groupEventsByDay\<close> of \<^verbatim>\<open>./event.tools\<close> (section 4.3), at the
  instant \<open>now\<close>: filter, sort, assign to days, truncate to the limit, and drop the days that
  the truncation has emptied.
\<close>

definition groupEventsByDay :: "int \<Rightarrow> event list \<Rightarrow> grouping \<Rightarrow> eventDay list" where
  "groupEventsByDay now evs g =
     filter (\<lambda>b. events b \<noteq> [])
       (truncate_days (gEventsLimit g)
          (day_buckets g now (sort_key event_order (filter (kept g now) evs))))"

text \<open>The number of events in a sequence of buckets.\<close>

definition total_events :: "eventDay list \<Rightarrow> nat" where
  "total_events bs = sum_list (map (\<lambda>b. length (events b)) bs)"

section \<open>Example inputs\<close>

text \<open>
  A conversion of strings to numbers that knows the decimal literal \<^verbatim>\<open>"5"\<close> and the empty
  string, and takes every other string for not-a-number.
\<close>

definition example_s2n :: "string \<Rightarrow> jsnumber" where
  "example_s2n s = (if s = ''5'' then Finite 5 else if s = [] then Finite 0 else NaN)"

text \<open>Defaults with a limit of 99 events, a window of 7 days and links enabled.\<close>

definition example_defaults :: config where
  "example_defaults =
     [EventsLimit (JSNumber (Finite 99)), NumberOfDays (JSNumber (Finite 7)),
      DisableLinks (JSBoolean False)]"

text \<open>A user configuration with one calendar; one that also disables the links.\<close>

definition example_config :: config where
  "example_config = [Entities (EntitiesArray [EntityId ''calendar.home''])]"

definition example_config_no_links :: config where
  "example_config_no_links =
     [Entities (EntitiesArray [EntityId ''calendar.home'']), DisableLinks (JSBoolean True)]"

text \<open>The same calendar with \<^verbatim>\<open>eventsLimit: 0\<close>.\<close>

definition example_config_zero_limit :: config where
  "example_config_zero_limit =
     [Entities (EntitiesArray [EntityId ''calendar.home'']), EventsLimit (JSNumber (Finite 0))]"

text \<open>A configuration with another calendar, and one without the \<^verbatim>\<open>entities\<close> key.\<close>

definition example_config_work :: config where
  "example_config_work = [Entities (EntitiesArray [EntityId ''calendar.work''])]"

definition example_config_no_entities :: config where
  "example_config_no_entities = [EventsLimit (JSNumber (Finite 5))]"

text \<open>
  Two configurations with the same calendar and the same title and theme, the two keys
  written in the one order and in the other.
\<close>

definition example_config_title_theme :: config where
  "example_config_title_theme =
     [Entities (EntitiesArray [EntityId ''calendar.home'']),
      Other ''title'' (JSString ''Home''), Other ''theme'' (JSString ''dark'')]"

definition example_config_theme_title :: config where
  "example_config_theme_title =
     [Entities (EntitiesArray [EntityId ''calendar.home'']),
      Other ''theme'' (JSString ''dark''), Other ''title'' (JSString ''Home'')]"

text \<open>
  The same calendar with a limit of null and with an infinite limit, and with a
  \<^verbatim>\<open>numberOfDays\<close> that is not a number.
\<close>

definition example_config_limit_null :: config where
  "example_config_limit_null =
     [Entities (EntitiesArray [EntityId ''calendar.home'']), EventsLimit JSNull]"

definition example_config_limit_infinity :: config where
  "example_config_limit_infinity =
     [Entities (EntitiesArray [EntityId ''calendar.home'']), EventsLimit (JSNumber PosInfinity)]"

definition example_config_days_nan :: config where
  "example_config_days_nan =
     [Entities (EntitiesArray [EntityId ''calendar.home'']), NumberOfDays (JSNumber NaN)]"

text \<open>The card after its first configuration and a refresh at the instant 1000.\<close>

definition example_card :: card where
  "example_card =
     \<lparr>config = Some (spread example_defaults example_config), cardNeedsUpdating = False,
      lastEventsUpdate = Some 1000, oldEvents = Some [], card_events = None\<rparr>"

text \<open>An event that has a source link and no canonical link, and one with both.\<close>

definition example_event_source_only :: event where
  "example_event_source_only =
     \<lparr>event_id = ''home-1'', title = ''Dentist'', htmlLink = JSUndefined,
      sourceUrl = JSString ''https://source.example/1'', start_time = 32400000,
      end_time = 36000000, all_day = False, origin = 0\<rparr>"

definition example_event :: event where
  "example_event =
     \<lparr>event_id = ''home-2'', title = ''Lunch'', htmlLink = JSString ''https://calendar.example/2'',
      sourceUrl = JSString ''https://source.example/2'', start_time = 43200000,
      end_time = 46800000, all_day = False, origin = 0\<rparr>"

text \<open>Tools that deliver these two events on one day, with no failed calendar.\<close>

definition example_tools :: event_tools where
  "example_tools =
     \<lparr>tool_getAllEvents = (\<lambda>c. ([example_event_source_only, example_event], [])),
      tool_groupEventsByDay = (\<lambda>evs c. [\<lparr>day = 0, events = evs\<rparr>]),
      tool_sendNotificationForNewEvents = (\<lambda>c evs old. Some evs)\<rparr>"

text \<open>
  The example of section 8 of the specification: source A has an event on the first day at
  09:00 and one on the second day at 10:00, source B fails; seven days are shown, the
  instant is the start of the first day.
\<close>

definition example_event_day2 :: event where
  "example_event_day2 =
     \<lparr>event_id = ''home-3'', title = ''Review'', htmlLink = JSString ''https://calendar.example/3'',
      sourceUrl = JSUndefined, start_time = 122400000, end_time = 126000000,
      all_day = False, origin = 0\<rparr>"

definition example_fetch :: fetcher where
  "example_fetch s w =
     (if s = EntityId ''calendar.a'' then Inr [example_event_source_only, example_event_day2]
      else Inl ''unavailable'')"

definition example_sources :: "entity list" where
  "example_sources = [EntityId ''calendar.a'', EntityId ''calendar.b'']"

definition example_grouping :: grouping where
  "example_grouping =
     \<lparr>gNumberOfDays = 7, gEventsLimit = 10, gCustomRange = None, gShowPastEvents = False,
      gSpannedDays = False\<rparr>"


definition example_fetch_both :: fetcher where
  "example_fetch_both s w =
     (if s = EntityId ''calendar.a'' then Inr [example_event_source_only, example_event_day2]
      else Inr [example_event])"

section \<open>Properties of setConfig\<close>

lemma setConfig_throws_iff:
  "(\<exists>e. fst (setConfig s2n d this c) = Threw e) \<longleftrightarrow>
     (\<not> entities_truthy (spread d c) \<or> entities_length (spread d c) = 0 \<or>
      isNaN s2n (read (eventsLimit (spread d c))) \<or>
      lt_zero s2n (read (eventsLimit (spread d c))))"
  by (auto simp: setConfig_def Let_def)

lemma setConfig_returns_iff:
  "fst (setConfig s2n d this c) = Returned \<longleftrightarrow>
     (entities_truthy (spread d c) \<and> entities_length (spread d c) \<noteq> 0 \<and>
      \<not> isNaN s2n (read (eventsLimit (spread d c))) \<and>
      \<not> lt_zero s2n (read (eventsLimit (spread d c))))"
  by (auto simp: setConfig_def Let_def)

lemma setConfig_throw_unchanged:
  "fst (setConfig s2n d this c) = Threw e \<Longrightarrow> snd (setConfig s2n d this c) = this"
  by (auto simp: setConfig_def Let_def split: if_splits)

lemma setConfig_flag:
  assumes "fst (setConfig s2n d this c) = Returned" and "card.config this = Some old"
  shows "cardNeedsUpdating (snd (setConfig s2n d this c)) =
           (cardNeedsUpdating this \<or>
            stringify_names (entity_names (spread d c)) \<noteq> stringify_names (entity_names old) \<or>
            strict_not_equals (read (numberOfDays (spread d c))) (read (numberOfDays old)) \<or>
            stringify_config (spread d c) \<noteq> stringify_config old)"
  using assms by (auto simp: setConfig_def Let_def config_or_empty_def split: if_splits)

lemma setConfig_keeps_lastEventsUpdate:
  "lastEventsUpdate (snd (setConfig s2n d this c)) = lastEventsUpdate this"
  by (auto simp: setConfig_def Let_def)

lemmas example_simps =
  example_s2n_def example_defaults_def example_config_def example_config_no_links_def
  example_config_zero_limit_def example_config_work_def example_config_no_entities_def
  example_config_title_theme_def example_config_theme_title_def
  example_config_limit_null_def example_config_limit_infinity_def example_config_days_nan_def
  example_card_def new_card_def empty_config_def spread_def property_of_def primitive_def
  entities_def eventsLimit_def numberOfDays_def maxHeight_def highlightToday_def
  useSourceUrl_def disableLinks_def progressBar_def
  entities_truthy_def entities_length_def entities_or_empty_def read_def isNaN_def lt_zero_def
  entity_names_def config_or_empty_def stringify_names_def stringify_config_def
  stringify_entities_def stringify_element_def strict_not_equals_def
  own_keys_def array_index_def is_digit_def

text \<open>
  C1. The message of the second check asks for a positive number, and the test it guards is
  \<^verbatim>\<open>eventsLimit < 0\<close>: a configuration with one calendar and \<^verbatim>\<open>eventsLimit: 0\<close> passes both
  checks, \<^verbatim>\<open>setConfig\<close> returns, and the configuration is stored with its limit of zero.
\<close>

theorem setConfig_accepts_zero_eventsLimit:
  "setConfig example_s2n example_defaults new_card example_config_zero_limit =
     (Returned,
      new_card\<lparr>cardNeedsUpdating := True,
               card.config := Some (spread example_defaults example_config_zero_limit)\<rparr>)"
  by (simp add: setConfig_def Let_def example_simps)

theorem setConfig_accepts_zero_eventsLimit_witness:
  "fst (setConfig example_s2n example_defaults new_card example_config_zero_limit) = Returned \<and>
   read (eventsLimit (spread example_defaults example_config_zero_limit)) = JSNumber (Finite 0)"
  using setConfig_accepts_zero_eventsLimit by (simp add: example_simps)

text \<open>
  C10. A configuration that fails one of the two checks of \<^verbatim>\<open>setConfig\<close> (no \<^verbatim>\<open>entities\<close>, an
  empty list, a limit that is not a number or is below zero) makes it throw, and the element
  is left as it was: the stored configuration and the flag are assigned after the checks.
\<close>

theorem setConfig_atomic_on_failure:
  assumes "\<not> entities_truthy (spread d c) \<or> entities_length (spread d c) = 0 \<or>
           isNaN s2n (read (eventsLimit (spread d c))) \<or>
           lt_zero s2n (read (eventsLimit (spread d c)))"
  shows "\<exists>msg. setConfig s2n d this c = (Threw (Error msg), this)"
  using assms by (auto simp: setConfig_def Let_def)

theorem setConfig_atomic_on_failure_witness:
  "entities_length (spread example_defaults example_config_no_entities) = 0 \<and>
   (\<exists>msg. setConfig example_s2n example_defaults example_card example_config_no_entities =
            (Threw (Error msg), example_card)) \<and>
   card.config example_card = Some (spread example_defaults example_config)"
proof -
  have h: "entities_length (spread example_defaults example_config_no_entities) = 0"
    by (simp add: example_simps)
  from h have "\<exists>msg. setConfig example_s2n example_defaults example_card example_config_no_entities =
                  (Threw (Error msg), example_card)"
    by (intro setConfig_atomic_on_failure) simp
  with h show ?thesis by (simp add: example_card_def)
qed

text \<open>
  C2, as the code has it. \<^verbatim>\<open>setConfig\<close> also compares the serialised configurations ("if
  anything changed then overall card needs updating"). For a stored configuration and a new
  one that passes the checks and agrees with it on the names of the entities and on
  \<^verbatim>\<open>numberOfDays\<close>, the card is marked as needing an update exactly when it was marked
  already or the two serialisations differ, which a cosmetic field is enough for.
\<close>

theorem setConfig_marks_update_iff:
  assumes "card.config this = Some old"
    and "fst (setConfig s2n d this c) = Returned"
    and "stringify_names (entity_names (spread d c)) = stringify_names (entity_names old)"
    and "strict_equals (read (numberOfDays (spread d c))) (read (numberOfDays old))"
  shows "cardNeedsUpdating (snd (setConfig s2n d this c)) =
           (cardNeedsUpdating this \<or> stringify_config (spread d c) \<noteq> stringify_config old)"
  using setConfig_flag[OF assms(2) assms(1)] assms(3,4) by (simp add: strict_not_equals_def)

theorem setConfig_marks_update_iff_witness:
  "card.config example_card = Some (spread example_defaults example_config) \<and>
   fst (setConfig example_s2n example_defaults example_card example_config_no_links) = Returned \<and>
   \<not> cardNeedsUpdating example_card \<and>
   stringify_config (spread example_defaults example_config_no_links) \<noteq>
     stringify_config (spread example_defaults example_config) \<and>
   cardNeedsUpdating
     (snd (setConfig example_s2n example_defaults example_card example_config_no_links))"
proof -
  have 1: "card.config example_card = Some (spread example_defaults example_config)"
    by (simp add: example_card_def)
  have 2: "fst (setConfig example_s2n example_defaults example_card example_config_no_links) = Returned"
    by (simp add: setConfig_returns_iff example_simps)
  have 3: "stringify_names (entity_names (spread example_defaults example_config_no_links)) =
           stringify_names (entity_names (spread example_defaults example_config))"
    by (simp add: example_simps)
  have 4: "strict_equals (read (numberOfDays (spread example_defaults example_config_no_links)))
             (read (numberOfDays (spread example_defaults example_config)))"
    by (simp add: example_simps)
  have 5: "stringify_config (spread example_defaults example_config_no_links) \<noteq>
           stringify_config (spread example_defaults example_config)"
    by (simp add: example_simps)
  have 6: "\<not> cardNeedsUpdating example_card"
    by (simp add: example_card_def)
  from setConfig_marks_update_iff[OF 1 2 3 4] 5
  have "cardNeedsUpdating
          (snd (setConfig example_s2n example_defaults example_card example_config_no_links))"
    by simp
  with 1 2 5 6 show ?thesis by simp
qed

text \<open>
  C2, as the specification states it, fails: the two example configurations name the same
  entity and have the same \<^verbatim>\<open>numberOfDays\<close> and differ in \<^verbatim>\<open>disableLinks\<close> only. The first is
  applied to a new card, the flag is cleared as a refresh clears it, and applying the second
  sets the flag again.
\<close>

theorem setConfig_cosmetic_change_counterexample:
  "entity_names (spread example_defaults example_config_no_links) =
     entity_names (spread example_defaults example_config) \<and>
   numberOfDays (spread example_defaults example_config_no_links) =
     numberOfDays (spread example_defaults example_config) \<and>
   cardNeedsUpdating
     (snd (setConfig example_s2n example_defaults
            ((snd (setConfig example_s2n example_defaults new_card example_config))
               \<lparr>cardNeedsUpdating := False\<rparr>)
            example_config_no_links))"
  by (simp add: setConfig_def Let_def example_simps)

text \<open>
  The order of the keys counts as a change too: the two example configurations have the
  same keys and values and list \<^verbatim>\<open>title\<close> and \<^verbatim>\<open>theme\<close> in the one order and in the other, and
  applying the second after the first sets the flag again.
\<close>

lemma setConfig_key_order_marks_update:
  "stringify_config (spread example_defaults example_config_theme_title) \<noteq>
     stringify_config (spread example_defaults example_config_title_theme) \<and>
   cardNeedsUpdating
     (snd (setConfig example_s2n example_defaults
            ((snd (setConfig example_s2n example_defaults new_card example_config_title_theme))
               \<lparr>cardNeedsUpdating := False\<rparr>)
            example_config_theme_title))"
  by (simp add: setConfig_def Let_def example_simps)

text \<open>
  Two values that are written alike are not told apart: a limit of null and an infinite
  limit are both written \<^verbatim>\<open>null\<close>, and replacing the one by the other leaves the flag clear.
\<close>

lemma setConfig_null_infinity_keeps_flag:
  "stringify_config (spread example_defaults example_config_limit_infinity) =
     stringify_config (spread example_defaults example_config_limit_null) \<and>
   setConfig example_s2n example_defaults
     ((snd (setConfig example_s2n example_defaults new_card example_config_limit_null))
        \<lparr>cardNeedsUpdating := False\<rparr>)
     example_config_limit_infinity =
     (Returned,
      new_card\<lparr>cardNeedsUpdating := False,
               card.config := Some (spread example_defaults example_config_limit_infinity)\<rparr>)"
  by (simp add: setConfig_def Let_def example_simps)

text \<open>
  A \<^verbatim>\<open>numberOfDays\<close> that is not a number differs from itself: applying the same
  configuration again sets the flag.
\<close>

lemma setConfig_nan_days_marks_update:
  "cardNeedsUpdating
     (snd (setConfig example_s2n example_defaults
            ((snd (setConfig example_s2n example_defaults new_card example_config_days_nan))
               \<lparr>cardNeedsUpdating := False\<rparr>)
            example_config_days_nan))"
  by (simp add: setConfig_def Let_def example_simps)

section \<open>Properties of updateCard\<close>

lemma absFloor_less_iff: "absFloor x 1000 < 600 \<longleftrightarrow> x < 600000"
  unfolding absFloor_def by (cases "x < 0") auto

lemma skips_update_iff:
  "skips_update this now \<longleftrightarrow>
     \<not> cardNeedsUpdating this \<and>
     (case lastEventsUpdate this of None \<Rightarrow> True | Some t \<Rightarrow> now - t < 600000)"
  by (simp add: skips_update_def moment_diff_seconds_def absFloor_less_iff split: option.split)

lemma updateCard_skipped: "skips_update this now \<Longrightarrow> updateCard tools now this = (Returned, this)"
  by (simp add: updateCard_def)

lemma updateCard_started:
  "\<not> skips_update this now \<Longrightarrow>
   lastEventsUpdate (snd (updateCard tools now this)) = Some now \<and>
   \<not> cardNeedsUpdating (snd (updateCard tools now this))"
  by (simp add: updateCard_def Let_def split: prod.split option.split)

lemma row_disableLink_iff:
  "row_disableLink c e \<longleftrightarrow>
     truthy (read (disableLinks c)) \<or>
     (if truthy (read (useSourceUrl c))
      then \<not> truthy (sourceUrl e) \<and> \<not> truthy (htmlLink e)
      else \<not> truthy (htmlLink e))"
  by (auto simp: row_disableLink_def row_linkUrl_def)

lemma day_rows_links:
  assumes "r \<in> set (day_rows c today b)"
  shows "row_event r \<in> set (events b) \<and> linkUrl r = row_linkUrl c (row_event r) \<and>
         disableLink r = row_disableLink c (row_event r)"
  using assms by (auto simp: day_rows_def make_row_def Let_def dest: set_zip_leftD)

lemma row_event_make_row: "row_event (make_row c today b e i) = e"
  by (simp add: make_row_def Let_def)

lemma day_rows_events: "map row_event (day_rows c today b) = events b"
proof -
  have "map row_event (day_rows c today b) =
        map fst (zip (events b) [0 ..< length (events b)])"
    by (simp add: day_rows_def row_event_make_row case_prod_unfold comp_def)
  then show ?thesis by simp
qed

lemma strict_equals_same: "strict_equals v v \<longleftrightarrow> v \<noteq> JSNumber NaN"
  by (cases v) auto

lemma setConfig_stored:
  assumes "fst (setConfig s2n d this c) = Returned"
  shows "card.config (snd (setConfig s2n d this c)) = Some (spread d c) \<and>
         oldEvents (snd (setConfig s2n d this c)) = oldEvents this \<and>
         lastEventsUpdate (snd (setConfig s2n d this c)) = lastEventsUpdate this"
  using assms by (auto simp: setConfig_def Let_def split: if_splits)

lemma updateCard_table:
  assumes "card.config this = Some c" and "\<not> skips_update this now"
  shows "updateCard tools now this =
           (Returned,
            this\<lparr>lastEventsUpdate := Some now, cardNeedsUpdating := False,
                 oldEvents :=
                   tool_sendNotificationForNewEvents tools (Some c)
                     (fst (tool_getAllEvents tools (Some c))) (oldEvents this),
                 card_events :=
                   Some \<lparr>failedCalendars = snd (tool_getAllEvents tools (Some c)),
                         calendar =
                           concat (map (day_rows c now)
                             (tool_groupEventsByDay tools (fst (tool_getAllEvents tools (Some c)))
                                (Some c)))\<rparr>\<rparr>)"
  using assms by (simp add: updateCard_def Let_def split: prod.split)

text \<open>
  C3, as the code has it. Take a card that has been refreshed at the instant \<open>t\<close> (the flag
  is clear, a configuration is stored) and apply a configuration that passes the checks.
  The next \<^verbatim>\<open>updateCard\<close>, at the instant \<open>now\<close>, returns and leaves the card as it is, unless
  \<^verbatim>\<open>setConfig\<close> has detected a change or at least 600 seconds (600000 milliseconds) lie
  between \<open>t\<close> and \<open>now\<close>; then it records \<open>now\<close>, clears the flag, fetches the events, groups
  them, stores the new snapshot and builds the table from what was fetched. A change is
  detected when the names of the entities differ, when \<^verbatim>\<open>numberOfDays\<close> is not strictly equal
  to the stored one (so always when it is NaN), or when the serialised configurations
  differ in any property, a cosmetic one included. In particular: with the very same
  configuration (its \<^verbatim>\<open>numberOfDays\<close> not NaN) and \<open>t = now\<close> the refresh is skipped; 601
  seconds after the last refresh it runs whatever the configuration; with changed names it
  runs whatever the instants are.
\<close>

theorem updateCard_refresh_iff:
  fixes s2n :: "string \<Rightarrow> jsnumber" and d c old :: config and this this' refreshed :: card
    and detected :: bool and now t :: int and tools :: event_tools
  defines "this' \<equiv> snd (setConfig s2n d this c)"
    and "detected \<equiv>
           (stringify_names (entity_names (spread d c)) \<noteq> stringify_names (entity_names old) \<or>
            strict_not_equals (read (numberOfDays (spread d c))) (read (numberOfDays old)) \<or>
            stringify_config (spread d c) \<noteq> stringify_config old)"
    and "refreshed \<equiv>
           this'\<lparr>lastEventsUpdate := Some now, cardNeedsUpdating := False,
                oldEvents :=
                  tool_sendNotificationForNewEvents tools (Some (spread d c))
                    (fst (tool_getAllEvents tools (Some (spread d c)))) (oldEvents this),
                card_events :=
                  Some \<lparr>failedCalendars = snd (tool_getAllEvents tools (Some (spread d c))),
                        calendar =
                          concat (map (day_rows (spread d c) now)
                            (tool_groupEventsByDay tools
                               (fst (tool_getAllEvents tools (Some (spread d c))))
                               (Some (spread d c))))\<rparr>\<rparr>"
  assumes cfg: "card.config this = Some old"
    and clear: "\<not> cardNeedsUpdating this"
    and last: "lastEventsUpdate this = Some t"
    and ok: "fst (setConfig s2n d this c) = Returned"
  shows
    "updateCard tools now this' =
       (if detected \<or> 600000 \<le> now - t then (Returned, refreshed) else (Returned, this')) \<and>
     (spread d c = old \<and> read (numberOfDays old) \<noteq> JSNumber NaN \<and> t = now \<longrightarrow>
        updateCard tools now this' = (Returned, this')) \<and>
     (t = now - 601000 \<longrightarrow> updateCard tools now this' = (Returned, refreshed)) \<and>
     (stringify_names (entity_names (spread d c)) \<noteq> stringify_names (entity_names old) \<longrightarrow>
        updateCard tools now this' = (Returned, refreshed))"
proof -
  have flag: "cardNeedsUpdating this' = detected"
    unfolding this'_def detected_def
    using setConfig_flag[OF ok cfg] clear by simp
  have stored: "card.config this' = Some (spread d c)" "oldEvents this' = oldEvents this"
    "lastEventsUpdate this' = Some t"
    unfolding this'_def using setConfig_stored[OF ok] last by simp_all
  have gate: "skips_update this' now \<longleftrightarrow> \<not> (detected \<or> 600000 \<le> now - t)"
    by (auto simp: skips_update_iff stored flag)
  have run: "updateCard tools now this' = (Returned, refreshed)" if "\<not> skips_update this' now"
    unfolding refreshed_def using updateCard_table[OF stored(1) that] by (simp add: stored)
  have skip: "updateCard tools now this' = (Returned, this')" if "skips_update this' now"
    using that by (rule updateCard_skipped)
  have main: "updateCard tools now this' =
                (if detected \<or> 600000 \<le> now - t then (Returned, refreshed) else (Returned, this'))"
    using gate run skip by (cases "skips_update this' now") simp_all
  have same: "\<not> detected" if "spread d c = old" "read (numberOfDays old) \<noteq> JSNumber NaN"
    using that by (simp add: detected_def strict_not_equals_def strict_equals_same)
  have names: "detected"
    if "stringify_names (entity_names (spread d c)) \<noteq> stringify_names (entity_names old)"
    using that by (simp add: detected_def)
  show ?thesis
    using main same names by auto
qed

theorem updateCard_refresh_iff_witness:
  "card.config example_card = Some (spread example_defaults example_config) \<and>
   \<not> cardNeedsUpdating example_card \<and>
   lastEventsUpdate example_card = Some 1000 \<and>
   fst (setConfig example_s2n example_defaults example_card example_config_work) = Returned \<and>
   map row_event (calendar (the (card_events
     (snd (updateCard example_tools 1000
        (snd (setConfig example_s2n example_defaults example_card example_config_work))))))) =
     [example_event_source_only, example_event] \<and>
   updateCard example_tools 1000
     (snd (setConfig example_s2n example_defaults example_card example_config)) =
     (Returned, snd (setConfig example_s2n example_defaults example_card example_config))"
proof -
  have 1: "card.config example_card = Some (spread example_defaults example_config)"
    by (simp add: example_card_def)
  have 2: "\<not> cardNeedsUpdating example_card"
    by (simp add: example_card_def)
  have 3: "lastEventsUpdate example_card = Some 1000"
    by (simp add: example_card_def)
  have 4: "fst (setConfig example_s2n example_defaults example_card example_config_work) = Returned"
    by (simp add: setConfig_returns_iff example_simps)
  have 5: "stringify_names (entity_names (spread example_defaults example_config_work)) \<noteq>
           stringify_names (entity_names (spread example_defaults example_config))"
    by (simp add: example_simps)
  have 6: "fst (setConfig example_s2n example_defaults example_card example_config) = Returned"
    by (simp add: setConfig_returns_iff example_simps)
  have 7: "read (numberOfDays (spread example_defaults example_config)) \<noteq> JSNumber NaN"
    by (simp add: example_simps)
  from updateCard_refresh_iff[OF 1 2 3 4, where now = 1000 and tools = example_tools] 5
  have "card_events
          (snd (updateCard example_tools 1000
             (snd (setConfig example_s2n example_defaults example_card example_config_work)))) =
        Some \<lparr>failedCalendars = snd (tool_getAllEvents example_tools
                                        (Some (spread example_defaults example_config_work))),
              calendar =
                concat (map (day_rows (spread example_defaults example_config_work) 1000)
                  (tool_groupEventsByDay example_tools
                     (fst (tool_getAllEvents example_tools
                             (Some (spread example_defaults example_config_work))))
                     (Some (spread example_defaults example_config_work))))\<rparr>"
    by simp
  then have run: "map row_event (calendar (the (card_events
     (snd (updateCard example_tools 1000
        (snd (setConfig example_s2n example_defaults example_card example_config_work))))))) =
     [example_event_source_only, example_event]"
    by (simp add: map_concat comp_def day_rows_events example_tools_def)
  from updateCard_refresh_iff[OF 1 2 3 6, where now = 1000 and tools = example_tools,
      THEN conjunct2, THEN conjunct1] 7
  have skip: "updateCard example_tools 1000
     (snd (setConfig example_s2n example_defaults example_card example_config)) =
     (Returned, snd (setConfig example_s2n example_defaults example_card example_config))"
    by simp
  from 1 2 3 4 run skip show ?thesis by simp
qed

text \<open>
  C3, as the specification states it, fails on a cosmetic edit: the two example
  configurations name the same entity and have the same \<^verbatim>\<open>numberOfDays\<close> and differ in
  \<^verbatim>\<open>disableLinks\<close> only; the card was refreshed at the instant 1000 and holds no table; the
  second configuration is applied and \<^verbatim>\<open>updateCard\<close> runs at that same instant: it does not
  return the card as it was but fetches and builds the table of the two fetched events.
\<close>

theorem updateCard_cosmetic_change_counterexample:
  "entity_names (spread example_defaults example_config_no_links) =
     entity_names (spread example_defaults example_config) \<and>
   numberOfDays (spread example_defaults example_config_no_links) =
     numberOfDays (spread example_defaults example_config) \<and>
   card.config example_card = Some (spread example_defaults example_config) \<and>
   lastEventsUpdate example_card = Some 1000 \<and>
   card_events example_card = None \<and>
   map row_event (calendar (the (card_events
     (snd (updateCard example_tools 1000
        (snd (setConfig example_s2n example_defaults example_card example_config_no_links))))))) =
     [example_event_source_only, example_event]"
  by (simp add: updateCard_def skips_update_def setConfig_def Let_def example_simps
      example_tools_def map_concat comp_def day_rows_events)

text \<open>
  C7, as the code has it. When \<^verbatim>\<open>updateCard\<close> goes on to render with a stored
  configuration, it returns, there is one row for each event of the grouped days, in order,
  and for every row: the link is the event's \<^verbatim>\<open>sourceUrl\<close> when \<^verbatim>\<open>useSourceUrl\<close> is set and
  the event has one, otherwise its \<^verbatim>\<open>htmlLink\<close>; the link is disabled exactly when
  \<^verbatim>\<open>disableLinks\<close> is set or that link is missing, which with \<^verbatim>\<open>useSourceUrl\<close> set means
  that the event has neither link, and without it that the event has no \<^verbatim>\<open>htmlLink\<close>,
  whether it has a \<^verbatim>\<open>sourceUrl\<close> or not. A link exists when it is truthy: a non-empty string.
\<close>

theorem updateCard_row_links:
  assumes "card.config this = Some c"
    and "\<not> skips_update this now"
    and "card_events (snd (updateCard tools now this)) = Some t"
  shows
    "fst (updateCard tools now this) = Returned \<and>
     map row_event (calendar t) =
       concat (map events
         (tool_groupEventsByDay tools (fst (tool_getAllEvents tools (Some c))) (Some c))) \<and>
     (\<forall>r \<in> set (calendar t).
        linkUrl r =
          (if truthy (read (useSourceUrl c)) \<and> truthy (sourceUrl (row_event r))
           then sourceUrl (row_event r) else htmlLink (row_event r)) \<and>
        (disableLink r \<longleftrightarrow>
           truthy (read (disableLinks c)) \<or>
           (if truthy (read (useSourceUrl c))
            then \<not> truthy (sourceUrl (row_event r)) \<and> \<not> truthy (htmlLink (row_event r))
            else \<not> truthy (htmlLink (row_event r)))))"
proof -
  let ?days = "tool_groupEventsByDay tools (fst (tool_getAllEvents tools (Some c))) (Some c)"
  have t: "calendar t = concat (map (day_rows c now) ?days)"
    using assms(3) by (auto simp: updateCard_table[OF assms(1,2)])
  have ret: "fst (updateCard tools now this) = Returned"
    by (simp add: updateCard_table[OF assms(1,2)])
  have evs: "map row_event (calendar t) = concat (map events ?days)"
    by (simp add: t map_concat comp_def day_rows_events)
  have rows: "linkUrl r = row_linkUrl c (row_event r) \<and>
              disableLink r = row_disableLink c (row_event r)" if "r \<in> set (calendar t)" for r
    using that unfolding t by (auto dest: day_rows_links)
  show ?thesis
    using ret evs rows by (simp add: row_disableLink_iff) (simp add: row_linkUrl_def)
qed

theorem updateCard_row_links_witness:
  "card.config (example_card\<lparr>cardNeedsUpdating := True\<rparr>) =
     Some (spread example_defaults example_config) \<and>
   \<not> skips_update (example_card\<lparr>cardNeedsUpdating := True\<rparr>) 2000 \<and>
   fst (updateCard example_tools 2000 (example_card\<lparr>cardNeedsUpdating := True\<rparr>)) = Returned \<and>
   map (\<lambda>r. (linkUrl r, disableLink r))
     (calendar (the (card_events
        (snd (updateCard example_tools 2000 (example_card\<lparr>cardNeedsUpdating := True\<rparr>)))))) =
     [(JSUndefined, True), (JSString ''https://calendar.example/2'', False)]"
proof -
  let ?card = "example_card\<lparr>cardNeedsUpdating := True\<rparr>"
  let ?c = "spread example_defaults example_config"
  have 1: "card.config ?card = Some ?c"
    by (simp add: example_card_def)
  have 2: "\<not> skips_update ?card 2000"
    by (simp add: skips_update_def)
  obtain t where 3: "card_events (snd (updateCard example_tools 2000 ?card)) = Some t"
    by (simp add: updateCard_table[OF 1 2])
  have 4: "map row_event (calendar t) = [example_event_source_only, example_event]"
    using updateCard_row_links[OF 1 2 3] by (simp add: example_tools_def)
  then obtain r1 r2 where rs: "calendar t = [r1, r2]"
    and r1: "row_event r1 = example_event_source_only" and r2: "row_event r2 = example_event"
    by (auto simp: map_eq_Cons_conv)
  have "fst (updateCard example_tools 2000 ?card) = Returned"
    using updateCard_row_links[OF 1 2 3] by simp
  moreover have "linkUrl r1 = JSUndefined \<and> disableLink r1 \<and>
                 linkUrl r2 = JSString ''https://calendar.example/2'' \<and> \<not> disableLink r2"
    using updateCard_row_links[OF 1 2 3] rs r1 r2
    by (simp add: example_simps example_event_source_only_def example_event_def)
  ultimately show ?thesis
    using 1 2 3 rs by simp
qed

text \<open>
  C7, as the specification states it, fails where the source link is not asked for: the
  example event has a \<^verbatim>\<open>sourceUrl\<close> and no \<^verbatim>\<open>htmlLink\<close>, the configuration sets neither
  \<^verbatim>\<open>useSourceUrl\<close> nor \<^verbatim>\<open>disableLinks\<close>, and the link of the row is disabled although one of
  the two links exists.
\<close>

theorem row_disableLink_counterexample:
  "sourceUrl example_event_source_only = JSString ''https://source.example/1'' \<and>
   truthy (sourceUrl example_event_source_only) \<and>
   \<not> truthy (read (disableLinks (spread example_defaults example_config))) \<and>
   row_linkUrl (spread example_defaults example_config) example_event_source_only = JSUndefined \<and>
   row_disableLink (spread example_defaults example_config) example_event_source_only"
  by (simp add: row_disableLink_def row_linkUrl_def example_event_source_only_def example_simps)

section \<open>Properties of the novelty detection\<close>

lemma detectNew_self: "detectNew (Some prev) prev = []"
  by (simp add: detectNew_def)

lemma detectNew_known:
  "set (map event_id xs) \<subseteq> set (map event_id prev) \<Longrightarrow> detectNew (Some prev) xs = []"
  by (auto simp: detectNew_def filter_empty_conv)

lemma detectNew_append:
  "detectNew (Some prev) (xs @ ys) = detectNew (Some prev) xs @ detectNew (Some prev) ys"
  by (simp add: detectNew_def)

text \<open>
  What the model of the novelty detection gives. With no previous snapshot nothing is new.
  A snapshot that is there, the empty one included, is compared by key: a list compared
  with itself has nothing new, and when the current list is the previous list with one
  more event anywhere in it, whose key is not a key of the previous list, the new events
  are exactly that event.
\<close>

lemma detectNew_snapshot:
  "detectNew None currentEvents = [] \<and>
   detectNew (Some prev) prev = [] \<and>
   (event_id e \<notin> set (map event_id (xs @ ys)) \<longrightarrow>
      detectNew (Some (xs @ ys)) (xs @ e # ys) = [e])"
proof -
  have "detectNew (Some (xs @ ys)) (xs @ e # ys) = [e]"
    if new: "event_id e \<notin> set (map event_id (xs @ ys))"
  proof -
    have "detectNew (Some (xs @ ys)) xs = []" and "detectNew (Some (xs @ ys)) ys = []"
      by (auto intro: detectNew_known)
    moreover have "detectNew (Some (xs @ ys)) [e] = [e]"
      using new by (simp add: detectNew_def)
    ultimately show ?thesis
      using detectNew_append[of "xs @ ys" xs "[e] @ ys"] detectNew_append[of "xs @ ys" "[e]" ys]
      by simp
  qed
  then show ?thesis
    by (simp add: detectNew_self) (simp add: detectNew_def)
qed

text \<open>
  An empty snapshot is not the same as none: against the empty snapshot every current
  event is new.
\<close>

lemma detectNew_empty_snapshot: "detectNew (Some []) currentEvents = currentEvents"
  by (simp add: detectNew_def)

section \<open>Properties of the grouping\<close>

lemma total_events_Cons: "total_events (b # bs) = length (events b) + total_events bs"
  by (simp add: total_events_def)

lemma total_events_Nil: "total_events [] = 0"
  by (simp add: total_events_def)

lemma total_truncate_days: "total_events (truncate_days n bs) = min n (total_events bs)"
proof (induction bs arbitrary: n)
  case Nil
  then show ?case by (simp add: total_events_Nil)
next
  case (Cons b bs)
  show ?case
    using Cons.IH[of "n - length (events b)"] by (simp add: total_events_Cons)
qed

lemma truncate_days_all: "total_events bs \<le> n \<Longrightarrow> truncate_days n bs = bs"
proof (induction bs arbitrary: n)
  case Nil
  then show ?case by simp
next
  case (Cons b bs)
  from Cons.prems have "length (events b) \<le> n" and "total_events bs \<le> n - length (events b)"
    by (simp_all add: total_events_Cons)
  with Cons.IH show ?case by simp
qed

lemma total_events_nonempty: "total_events (filter (\<lambda>b. events b \<noteq> []) bs) = total_events bs"
  by (induction bs) (simp_all add: total_events_Cons total_events_Nil)


lemma day_buckets_nonempty: "b \<in> set (day_buckets g now evs) \<Longrightarrow> events b \<noteq> []"
  by (simp add: day_buckets_def)

lemma day_buckets_Nil: "day_buckets g now [] = []"
  by (simp add: day_buckets_def day_bucket_def filter_empty_conv)

lemma filter_nonempty_day_buckets:
  "filter (\<lambda>b. events b \<noteq> []) (day_buckets g now evs) = day_buckets g now evs"
  by (simp add: day_buckets_def)

lemma count_day:
  "distinct ds \<Longrightarrow>
   sum_list (map (\<lambda>d. if c = d then 1 else 0) ds) = (if c \<in> set ds then 1 else (0::nat))"
  by (induction ds) auto

lemma total_day_buckets_start_days:
  assumes "\<not> gSpannedDays g"
    and "\<forall>e \<in> set evs. fst (day_range g now) \<le> day_of (start_time e) \<and>
                          day_of (start_time e) < snd (day_range g now)"
  shows "total_events (day_buckets g now evs) = length evs"
  using assms(2)
proof (induction evs)
  case Nil
  then show ?case by (simp add: day_buckets_Nil total_events_Nil)
next
  case (Cons e es)
  let ?ds = "[fst (day_range g now) .. snd (day_range g now) - 1]"
  have total: "total_events (day_buckets g now zs) =
               sum_list (map (\<lambda>d. length (filter (\<lambda>x. day_of (start_time x) = d) zs)) ?ds)" for zs
    using assms(1)
    by (simp add: day_buckets_def total_events_nonempty)
       (simp add: total_events_def day_bucket_def appears_on_def comp_def)
  have "sum_list (map (\<lambda>d. length (filter (\<lambda>x. day_of (start_time x) = d) (e # es))) ?ds) =
        sum_list (map (\<lambda>d. (if day_of (start_time e) = d then 1 else 0) +
                             length (filter (\<lambda>x. day_of (start_time x) = d) es)) ?ds)"
    by (intro arg_cong[where f = sum_list] map_cong) auto
  also have "\<dots> = sum_list (map (\<lambda>d. if day_of (start_time e) = d then 1 else 0) ?ds) +
                  sum_list (map (\<lambda>d. length (filter (\<lambda>x. day_of (start_time x) = d) es)) ?ds)"
    by (simp add: sum_list_addf)
  also have "sum_list (map (\<lambda>d. if day_of (start_time e) = d then 1 else 0) ?ds) = (1::nat)"
    using Cons.prems by (subst count_day) auto
  finally show ?case
    using Cons by (simp add: total)
qed

text \<open>
  C4. The buckets that the grouping returns hold at most \<^verbatim>\<open>eventsLimit\<close> events in total.
  When the buckets before the truncation hold no more than the limit, they are returned as
  they are; this is so in particular when events appear on their start day only and the
  merged list is no longer than the limit, and then every event that passes the filter is
  returned. An empty merged list gives no bucket. No bucket of the result is empty.
\<close>

theorem groupEventsByDay_limit:
  "total_events (groupEventsByDay now evs g) \<le> gEventsLimit g \<and>
   (total_events (day_buckets g now (sort_key event_order (filter (kept g now) evs)))
      \<le> gEventsLimit g \<longrightarrow>
    groupEventsByDay now evs g =
      day_buckets g now (sort_key event_order (filter (kept g now) evs))) \<and>
   (\<not> gSpannedDays g \<and> length evs \<le> gEventsLimit g \<longrightarrow>
    groupEventsByDay now evs g =
      day_buckets g now (sort_key event_order (filter (kept g now) evs)) \<and>
    total_events (groupEventsByDay now evs g) = length (filter (kept g now) evs)) \<and>
   groupEventsByDay now [] g = [] \<and>
   (\<forall>b \<in> set (groupEventsByDay now evs g). events b \<noteq> [])"
proof -
  let ?sorted = "sort_key event_order (filter (kept g now) evs)"
  have bound: "total_events (groupEventsByDay now evs g) \<le> gEventsLimit g"
    by (simp add: groupEventsByDay_def total_events_nonempty total_truncate_days)
  have whole: "groupEventsByDay now evs g = day_buckets g now ?sorted"
    if "total_events (day_buckets g now ?sorted) \<le> gEventsLimit g"
    using that by (simp add: groupEventsByDay_def truncate_days_all filter_nonempty_day_buckets)
  have count: "total_events (day_buckets g now ?sorted) = length (filter (kept g now) evs)"
    if "\<not> gSpannedDays g"
  proof -
    have "total_events (day_buckets g now ?sorted) = length ?sorted"
      using that by (intro total_day_buckets_start_days) (auto simp: kept_def)
    then show ?thesis by simp
  qed
  have short: "groupEventsByDay now evs g = day_buckets g now ?sorted \<and>
               total_events (groupEventsByDay now evs g) = length (filter (kept g now) evs)"
    if "\<not> gSpannedDays g" and "length evs \<le> gEventsLimit g"
  proof -
    have "length (filter (kept g now) evs) \<le> length evs"
      by simp
    with that(2) have "length (filter (kept g now) evs) \<le> gEventsLimit g"
      by linarith
    with that(1) count have "total_events (day_buckets g now ?sorted) \<le> gEventsLimit g"
      by simp
    with whole count that show ?thesis by simp
  qed
  have empty: "groupEventsByDay now [] g = []"
    by (simp add: groupEventsByDay_def day_buckets_Nil)
  have nonempty: "\<forall>b \<in> set (groupEventsByDay now evs g). events b \<noteq> []"
    by (simp add: groupEventsByDay_def)
  from bound whole short empty nonempty show ?thesis
    by blast
qed

theorem groupEventsByDay_limit_witness:
  "total_events
     (groupEventsByDay 0 [example_event_day2, example_event_source_only]
        (example_grouping\<lparr>gEventsLimit := 1\<rparr>)) \<le> 1 \<and>
   groupEventsByDay 0 [example_event_day2, example_event_source_only]
     (example_grouping\<lparr>gEventsLimit := 1\<rparr>) =
     [\<lparr>day = 0, events = [example_event_source_only]\<rparr>] \<and>
   groupEventsByDay 0 [example_event_day2, example_event_source_only] example_grouping =
     [\<lparr>day = 0, events = [example_event_source_only]\<rparr>,
      \<lparr>day = 1, events = [example_event_day2]\<rparr>]"
proof -
  have 1: "groupEventsByDay 0 [example_event_day2, example_event_source_only]
             (example_grouping\<lparr>gEventsLimit := 1\<rparr>) =
           [\<lparr>day = 0, events = [example_event_source_only]\<rparr>]"
    by code_simp
  have 2: "groupEventsByDay 0 [example_event_day2, example_event_source_only] example_grouping =
           [\<lparr>day = 0, events = [example_event_source_only]\<rparr>,
            \<lparr>day = 1, events = [example_event_day2]\<rparr>]"
    by code_simp
  have "total_events
          (groupEventsByDay 0 [example_event_day2, example_event_source_only]
             (example_grouping\<lparr>gEventsLimit := 1\<rparr>))
        \<le> gEventsLimit (example_grouping\<lparr>gEventsLimit := 1\<rparr>)"
    using groupEventsByDay_limit[of 0 "[example_event_day2, example_event_source_only]"
        "example_grouping\<lparr>gEventsLimit := 1\<rparr>"]
    by blast
  with 1 2 show ?thesis by simp
qed











section \<open>Properties of the fetch\<close>

lemma filter_fst_enumerate:
  "filter (\<lambda>p. fst p = j) (enumerate n xs) =
     (if n \<le> j \<and> j < n + length xs then [(j, xs ! (j - n))] else [])"
proof (induction xs arbitrary: n)
  case Nil
  then show ?case by simp
next
  case (Cons x xs)
  show ?case
    using Cons.IH[of "Suc n"] by (auto simp: nth_Cons' Suc_diff_le)
qed

lemma mset_eq_short: "mset xs = mset ys \<Longrightarrow> length ys \<le> 1 \<Longrightarrow> xs = ys"
  by (cases ys) auto

lemma filter_position_arrival:
  assumes "completion_order sources arrival"
  shows "filter (\<lambda>p. fst p = j) arrival = filter (\<lambda>p. fst p = j) (configured sources)"
proof -
  have "mset (filter (\<lambda>p. fst p = j) arrival) = mset (filter (\<lambda>p. fst p = j) (configured sources))"
    using assms by (simp add: completion_order_def)
  moreover have "length (filter (\<lambda>p. fst p = j) (configured sources)) \<le> 1"
    by (simp add: configured_def filter_fst_enumerate)
  ultimately show ?thesis
    by (rule mset_eq_short)
qed

lemma filter_position_configured:
  "j < length sources \<Longrightarrow> filter (\<lambda>p. fst p = j) (configured sources) = [(j, sources ! j)]"
  by (simp add: configured_def filter_fst_enumerate)

lemma concat_map_relevant:
  assumes "\<And>x. x \<in> set xs \<Longrightarrow> \<not> P x \<Longrightarrow> f x = []"
  shows "concat (map f xs) = concat (map f (filter P xs))"
  using assms by (induction xs) auto

lemma mset_concat_map_cong:
  assumes "mset xs = mset ys"
  shows "mset (concat (map f xs)) = mset (concat (map f ys))"
proof -
  have "mset (concat (map f zs)) = sum_mset (image_mset (\<lambda>z. mset (f z)) (mset zs))" for zs
    by (induction zs) simp_all
  with assms show ?thesis by simp
qed

lemma in_configured: "p \<in> set (configured sources) \<Longrightarrow> fst p < length sources \<and> snd p = sources ! fst p"
  by (cases p) (auto simp: configured_def in_set_enumerate_eq)

lemma in_arrival:
  "completion_order sources arrival \<Longrightarrow> p \<in> set arrival \<Longrightarrow>
   fst p < length sources \<and> snd p = sources ! fst p"
  by (metis completion_order_def in_configured mset_eq_setD)

text \<open>
  C5. Let the fetches of the configured sources complete in any order, let the source at
  position \<open>i\<close> fail and every other source succeed. Then the merged list holds exactly the
  events of the other sources, with their repetitions: it is a rearrangement of the lists
  of those sources put one after the other, its length is the sum of their lengths, and
  there are as many of those sources as configured sources but one. The list of failures is
  the single entry of the failed source with its error. When the fetches complete in the
  configured order, the merged list is those lists one after the other.
\<close>

theorem getAllEvents_isolates_failure:
  assumes "completion_order sources arrival"
    and "i < length sources"
    and "fetch (sources ! i) w = Inl err"
    and "\<And>j. j < length sources \<Longrightarrow> j \<noteq> i \<Longrightarrow> \<exists>evs. fetch (sources ! j) w = Inr evs"
  shows
    "mset (fst (getAllEvents fetch w arrival)) =
       mset (concat (map (source_events fetch w) (filter (\<lambda>p. fst p \<noteq> i) (configured sources)))) \<and>
     length (fst (getAllEvents fetch w arrival)) =
       sum_list (map (\<lambda>p. length (source_events fetch w p))
                   (filter (\<lambda>p. fst p \<noteq> i) (configured sources))) \<and>
     length (filter (\<lambda>p. fst p \<noteq> i) (configured sources)) = length sources - 1 \<and>
     snd (getAllEvents fetch w arrival) = [\<lparr>failed_source = sources ! i, failed_error = err\<rparr>] \<and>
     fst (getAllEvents fetch w (configured sources)) =
       concat (map (source_events fetch w) (filter (\<lambda>p. fst p \<noteq> i) (configured sources)))"
proof -
  let ?others = "filter (\<lambda>p. fst p \<noteq> i) (configured sources)"
  have failed: "source_events fetch w p = []" if "p \<in> set (configured sources)" "\<not> fst p \<noteq> i" for p
  proof -
    from that have "fetch (snd p) w = Inl err"
      using assms(3) in_configured[of p sources] by simp
    then show ?thesis
      by (simp add: source_events_def case_prod_unfold)
  qed
  have ordered: "concat (map (source_events fetch w) (configured sources)) =
                 concat (map (source_events fetch w) ?others)"
    by (rule concat_map_relevant) (rule failed)
  have "mset (concat (map (source_events fetch w) arrival)) =
        mset (concat (map (source_events fetch w) (configured sources)))"
    using assms(1) by (intro mset_concat_map_cong) (simp add: completion_order_def)
  with ordered have merged: "mset (fst (getAllEvents fetch w arrival)) =
                    mset (concat (map (source_events fetch w) ?others))"
    by (simp add: getAllEvents_def)
  from merged have "length (fst (getAllEvents fetch w arrival)) =
                    length (concat (map (source_events fetch w) ?others))"
    by (rule mset_eq_length)
  then have count: "length (fst (getAllEvents fetch w arrival)) =
                    sum_list (map (\<lambda>p. length (source_events fetch w p)) ?others)"
    by (simp add: length_concat comp_def)
  have "length (filter (\<lambda>p. fst p = i) (configured sources)) + length ?others =
        length (configured sources)"
    by (simp add: sum_length_filter_compl)
  then have others: "length ?others = length sources - 1"
    using assms(2) by (simp add: filter_position_configured) (simp add: configured_def)
  have ok: "source_failures fetch w p = []" if "p \<in> set arrival" "\<not> fst p = i" for p
  proof -
    from that(1) assms(1) have "fst p < length sources" and "snd p = sources ! fst p"
      by (auto dest: in_arrival)
    with assms(4)[of "fst p"] that(2) show ?thesis
      by (cases p) (auto simp: source_failures_def)
  qed
  have "concat (map (source_failures fetch w) arrival) =
        concat (map (source_failures fetch w) (filter (\<lambda>p. fst p = i) arrival))"
    by (rule concat_map_relevant) (rule ok)
  also have "filter (\<lambda>p. fst p = i) arrival = [(i, sources ! i)]"
    using assms(1,2) by (simp add: filter_position_arrival filter_position_configured)
  finally have failures: "snd (getAllEvents fetch w arrival) =
                          [\<lparr>failed_source = sources ! i, failed_error = err\<rparr>]"
    using assms(3) by (simp add: getAllEvents_def source_failures_def)
  have "fst (getAllEvents fetch w (configured sources)) =
        concat (map (source_events fetch w) ?others)"
    using ordered by (simp add: getAllEvents_def)
  with merged count others failures show ?thesis
    by blast
qed

theorem getAllEvents_isolates_failure_witness:
  "completion_order example_sources (rev (configured example_sources)) \<and>
   example_fetch (example_sources ! 1) (fetch_window 0 7) = Inl ''unavailable'' \<and>
   example_fetch (example_sources ! 0) (fetch_window 0 7) =
     Inr [example_event_source_only, example_event_day2] \<and>
   length (fst (getAllEvents example_fetch (fetch_window 0 7) (rev (configured example_sources)))) = 2 \<and>
   snd (getAllEvents example_fetch (fetch_window 0 7) (rev (configured example_sources))) =
     [\<lparr>failed_source = EntityId ''calendar.b'', failed_error = ''unavailable''\<rparr>]"
proof -
  have 1: "completion_order example_sources (rev (configured example_sources))"
    by (simp add: completion_order_def)
  have 2: "(1::nat) < length example_sources"
    by (simp add: example_sources_def)
  have 3: "example_fetch (example_sources ! 1) (fetch_window 0 7) = Inl ''unavailable''"
    by (simp add: example_fetch_def example_sources_def)
  have 0: "example_fetch (example_sources ! 0) (fetch_window 0 7) =
           Inr [example_event_source_only, example_event_day2]"
    by (simp add: example_fetch_def example_sources_def)
  have 4: "\<exists>evs. example_fetch (example_sources ! j) (fetch_window 0 7) = Inr evs"
    if "j < length example_sources" "j \<noteq> 1" for j
  proof -
    from that have "j = 0" by (simp add: example_sources_def)
    with 0 show ?thesis by simp
  qed
  have total: "sum_list (map (\<lambda>p. length (source_events example_fetch (fetch_window 0 7) p))
                 (filter (\<lambda>p. fst p \<noteq> 1) (configured example_sources))) = 2"
    by code_simp
  have second: "example_sources ! 1 = EntityId ''calendar.b''"
    by (simp add: example_sources_def)
  from getAllEvents_isolates_failure[where fetch = example_fetch and w = "fetch_window 0 7"
      and sources = example_sources and i = 1, OF 1 2 3 4]
  have "length (fst (getAllEvents example_fetch (fetch_window 0 7) (rev (configured example_sources)))) =
          sum_list (map (\<lambda>p. length (source_events example_fetch (fetch_window 0 7) p))
                      (filter (\<lambda>p. fst p \<noteq> 1) (configured example_sources)))"
    and "snd (getAllEvents example_fetch (fetch_window 0 7) (rev (configured example_sources))) =
          [\<lparr>failed_source = example_sources ! 1, failed_error = ''unavailable''\<rparr>]"
    by blast+
  then have "length (fst (getAllEvents example_fetch (fetch_window 0 7) (rev (configured example_sources)))) = 2"
    and "snd (getAllEvents example_fetch (fetch_window 0 7) (rev (configured example_sources))) =
          [\<lparr>failed_source = EntityId ''calendar.b'', failed_error = ''unavailable''\<rparr>]"
    by (simp_all only: total second)
  with 1 3 0 show ?thesis by simp
qed

section \<open>The grouping does not depend on the order of arrival\<close>

lemma origin_source_events: "e \<in> set (source_events fetch w p) \<Longrightarrow> origin e = fst p"
  by (cases p) (auto simp: source_events_def split: sum.splits)

lemma filter_order_merged:
  assumes "completion_order sources arrival"
  shows "filter (\<lambda>e. event_order e = k) (concat (map (source_events fetch w) arrival)) =
         filter (\<lambda>e. event_order e = k) (concat (map (source_events fetch w) (configured sources)))"
proof -
  let ?j = "fst (snd (snd (snd k)))"
  let ?f = "\<lambda>p. filter (\<lambda>e. event_order e = k) (source_events fetch w p)"
  have none: "?f p = []" if "\<not> fst p = ?j" for p
    using that by (auto simp: filter_empty_conv event_order_def dest: origin_source_events)
  have pick: "filter (\<lambda>e. event_order e = k) (concat (map (source_events fetch w) zs)) =
              concat (map ?f (filter (\<lambda>p. fst p = ?j) zs))" for zs
  proof -
    have "filter (\<lambda>e. event_order e = k) (concat (map (source_events fetch w) zs)) =
          concat (map ?f zs)"
      by (simp add: filter_concat comp_def)
    also have "\<dots> = concat (map ?f (filter (\<lambda>p. fst p = ?j) zs))"
      by (rule concat_map_relevant) (rule none)
    finally show ?thesis .
  qed
  show ?thesis
    by (simp only: pick filter_position_arrival[OF assms])
qed

lemma sort_same_events:
  assumes "mset xs = mset ys"
    and "\<And>k. filter (\<lambda>e. event_order e = k) xs = filter (\<lambda>e. event_order e = k) ys"
  shows "sort_key event_order (filter P xs) = sort_key event_order (filter P ys)"
proof (rule properties_for_sort_key)
  from assms(1) show "mset (sort_key event_order (filter P ys)) = mset (filter P xs)"
    by simp
  show "sorted (map event_order (sort_key event_order (filter P ys)))"
    by simp
  fix e
  have "filter (\<lambda>x. event_order e = event_order x) (sort_key event_order (filter P ys)) =
        filter (\<lambda>x. event_order x = event_order e) (sort_key event_order (filter P ys))"
    by (rule filter_cong) auto
  also have "\<dots> = filter (\<lambda>x. event_order x = event_order e) (filter P ys)"
    by (rule sort_key_stable)
  also have "\<dots> = filter P (filter (\<lambda>x. event_order x = event_order e) ys)"
    by (simp add: conj_commute)
  also have "\<dots> = filter P (filter (\<lambda>x. event_order x = event_order e) xs)"
    by (simp only: assms(2))
  also have "\<dots> = filter (\<lambda>x. event_order x = event_order e) (filter P xs)"
    by (simp add: conj_commute)
  also have "\<dots> = filter (\<lambda>x. event_order e = event_order x) (filter P xs)"
    by (rule filter_cong) auto
  finally show "filter (\<lambda>x. event_order e = event_order x) (sort_key event_order (filter P ys)) =
                filter (\<lambda>x. event_order e = event_order x) (filter P xs)" .
qed

lemma group_same_events:
  assumes "mset xs = mset ys"
    and "\<And>k. filter (\<lambda>e. event_order e = k) xs = filter (\<lambda>e. event_order e = k) ys"
  shows "groupEventsByDay now xs g = groupEventsByDay now ys g"
  by (simp add: groupEventsByDay_def sort_same_events[OF assms])

text \<open>
  C9, as the model of section 4.3 has it. The buckets are a function of the merged list, the
  configuration and the instant at which the grouping runs, which fixes today and the
  events that have ended. At one instant they do not depend on the order in which the
  fetches of the sources complete: for any two such orders the merged lists are grouped
  into the same buckets, which are those of the list merged in the configured order. More
  generally two merged lists with the same events, in which the events that the order of
  step 2 does not tell apart come in the same order, are grouped into the same buckets.
\<close>

theorem groupEventsByDay_arrival_independent:
  assumes "completion_order sources arrival" and "completion_order sources arrival'"
  shows "groupEventsByDay now (fst (getAllEvents fetch w arrival)) g =
           groupEventsByDay now (fst (getAllEvents fetch w arrival')) g \<and>
         groupEventsByDay now (fst (getAllEvents fetch w arrival)) g =
           groupEventsByDay now (fst (getAllEvents fetch w (configured sources))) g \<and>
         (mset xs = mset ys \<and>
          (\<forall>k. filter (\<lambda>e. event_order e = k) xs = filter (\<lambda>e. event_order e = k) ys) \<longrightarrow>
            groupEventsByDay now xs g = groupEventsByDay now ys g)"
proof -
  have merged: "groupEventsByDay now (fst (getAllEvents fetch w a)) g =
                groupEventsByDay now (fst (getAllEvents fetch w (configured sources))) g"
    if "completion_order sources a" for a
  proof (rule group_same_events)
    show "mset (fst (getAllEvents fetch w a)) = mset (fst (getAllEvents fetch w (configured sources)))"
      using that unfolding getAllEvents_def fst_conv
      by (intro mset_concat_map_cong) (simp add: completion_order_def)
    show "filter (\<lambda>e. event_order e = k) (fst (getAllEvents fetch w a)) =
          filter (\<lambda>e. event_order e = k) (fst (getAllEvents fetch w (configured sources)))" for k
      unfolding getAllEvents_def fst_conv by (rule filter_order_merged[OF that])
  qed
  from merged[OF assms(1)] merged[OF assms(2)] group_same_events[of xs ys now g]
  show ?thesis by auto
qed

theorem groupEventsByDay_arrival_independent_witness:
  "completion_order example_sources (configured example_sources) \<and>
   completion_order example_sources (rev (configured example_sources)) \<and>
   fst (getAllEvents example_fetch_both (fetch_window 0 7) (rev (configured example_sources))) =
     [example_event\<lparr>origin := 1\<rparr>, example_event_source_only, example_event_day2] \<and>
   fst (getAllEvents example_fetch_both (fetch_window 0 7) (configured example_sources)) =
     [example_event_source_only, example_event_day2, example_event\<lparr>origin := 1\<rparr>] \<and>
   groupEventsByDay 0
     (fst (getAllEvents example_fetch_both (fetch_window 0 7) (rev (configured example_sources))))
     example_grouping =
   groupEventsByDay 0
     (fst (getAllEvents example_fetch_both (fetch_window 0 7) (configured example_sources)))
     example_grouping \<and>
   groupEventsByDay 0
     (fst (getAllEvents example_fetch_both (fetch_window 0 7) (rev (configured example_sources))))
     example_grouping =
     [\<lparr>day = 0, events = [example_event_source_only, example_event\<lparr>origin := 1\<rparr>]\<rparr>,
      \<lparr>day = 1, events = [example_event_day2]\<rparr>]"
proof -
  have 1: "completion_order example_sources (rev (configured example_sources))"
    by (simp add: completion_order_def)
  have 2: "completion_order example_sources (configured example_sources)"
    by (simp add: completion_order_def)
  have 3: "fst (getAllEvents example_fetch_both (fetch_window 0 7) (rev (configured example_sources))) =
           [example_event\<lparr>origin := 1\<rparr>, example_event_source_only, example_event_day2]"
    by code_simp
  have 4: "fst (getAllEvents example_fetch_both (fetch_window 0 7) (configured example_sources)) =
           [example_event_source_only, example_event_day2, example_event\<lparr>origin := 1\<rparr>]"
    by code_simp
  have 5: "groupEventsByDay 0
             [example_event_source_only, example_event_day2, example_event\<lparr>origin := 1\<rparr>]
             example_grouping =
           [\<lparr>day = 0, events = [example_event_source_only, example_event\<lparr>origin := 1\<rparr>]\<rparr>,
            \<lparr>day = 1, events = [example_event_day2]\<rparr>]"
    by code_simp
  from groupEventsByDay_arrival_independent[OF 1 2, where fetch = example_fetch_both
      and w = "fetch_window 0 7" and now = 0 and g = example_grouping]
  have 6: "groupEventsByDay 0
     (fst (getAllEvents example_fetch_both (fetch_window 0 7) (rev (configured example_sources))))
     example_grouping =
   groupEventsByDay 0
     (fst (getAllEvents example_fetch_both (fetch_window 0 7) (configured example_sources)))
     example_grouping"
    by blast
  from 6 have 7: "groupEventsByDay 0
     (fst (getAllEvents example_fetch_both (fetch_window 0 7) (rev (configured example_sources))))
     example_grouping =
     [\<lparr>day = 0, events = [example_event_source_only, example_event\<lparr>origin := 1\<rparr>]\<rparr>,
      \<lparr>day = 1, events = [example_event_day2]\<rparr>]"
    by (simp only: 4 5)
  from 1 2 3 4 6 7 show ?thesis by blast
qed

text \<open>
  C9, as the specification states it, fails because the instant counts: the same list and
  the same configuration give a bucket at the start of the first day, and none at 11:06:40
  of that day (the instant 40000000), when the event of 09:00 to 10:00 has ended and past
  events are not shown.
\<close>

theorem groupEventsByDay_instant_counterexample:
  "groupEventsByDay 0 [example_event_source_only] example_grouping =
     [\<lparr>day = 0, events = [example_event_source_only]\<rparr>] \<and>
   groupEventsByDay 40000000 [example_event_source_only] example_grouping = []"
proof -
  have "groupEventsByDay 0 [example_event_source_only] example_grouping =
          [\<lparr>day = 0, events = [example_event_source_only]\<rparr>]"
    by code_simp
  moreover have "groupEventsByDay 40000000 [example_event_source_only] example_grouping = []"
    by code_simp
  ultimately show ?thesis by simp
qed

end
